theory Spec2Isabelle
  imports Main
begin

section \<open>The Azure account tree item (AzureAccountTreeItemBase.ts)\<close>

text \<open>
  A shallow embedding of \<^verbatim>\<open>src/ui/src/treeDataProvider/AzureAccountTreeItemBase.ts\<close>.
  Every asynchronous call is modelled by the way its promise settles; mutation of
  \<^verbatim>\<open>this\<close> and of the action context is explicit state passing; the abstract
  factory \<^verbatim>\<open>createSubscriptionTreeItem\<close> and the host are parameters.
\<close>

subsection \<open>Promises and errors\<close>

datatype error =
    UserCancelledError
  | NonNullError string
  | ExternalError string

text \<open>
  How an awaited promise settles. \<open>Pending\<close> is a promise that never settles: the
  \<^verbatim>\<open>await\<close> on it never returns.
\<close>

datatype 'a outcome = Fulfilled 'a | Rejected error | Pending

text \<open>
  \<^verbatim>\<open>Promise.all\<close>: rejected as soon as one promise is rejected (also when others
  never settle), fulfilled with all values in the order of the array when all are
  fulfilled, pending otherwise. The reason reported is the one of the promise rejected first
  in time; the model reports the first one in the order of the array.
\<close>

fun Promise_all :: "'a outcome list \<Rightarrow> 'a list outcome" where
  "Promise_all [] = Fulfilled []"
| "Promise_all (Rejected e # ps) = Rejected e"
| "Promise_all (Fulfilled v # ps) =
     (case Promise_all ps of
        Fulfilled vs \<Rightarrow> Fulfilled (v # vs)
      | Rejected e \<Rightarrow> Rejected e
      | Pending \<Rightarrow> Pending)"
| "Promise_all (Pending # ps) =
     (case Promise_all ps of
        Rejected e \<Rightarrow> Rejected e
      | _ \<Rightarrow> Pending)"

text \<open>
  Modelled from the spec: \<^verbatim>\<open>nonNullProp\<close> and \<^verbatim>\<open>nonNullValue\<close> are helpers of
  utils/nonNull, which is not among the sources. The spec names the fields of the resolved
  context they guard; as their names say, they give the value when it is present and throw
  an error naming the property when it is null or undefined.
\<close>

definition nonNullProp :: "'a option \<Rightarrow> string \<Rightarrow> error + 'a" where
  "nonNullProp v propertyName =
     (case v of None \<Rightarrow> Inl (NonNullError propertyName) | Some x \<Rightarrow> Inr x)"

definition nonNullValue :: "'a option \<Rightarrow> string \<Rightarrow> error + 'a" where
  "nonNullValue v propertyNameOrMessage =
     (case v of None \<Rightarrow> Inl (NonNullError propertyNameOrMessage) | Some x \<Rightarrow> Inr x)"

subsection \<open>The account provider's data (azure-account.api)\<close>

text \<open>
  Modelled from the spec: the declarations of azure-account.api are not among the sources.
  The spec gives the status as one of \<^verbatim>\<open>Initializing\<close>, \<^verbatim>\<open>LoggingIn\<close>,
  \<^verbatim>\<open>LoggedOut\<close>, \<^verbatim>\<open>LoggedIn\<close>, and a filter as a subscription (fully-qualified path,
  bare id, display name) with its session (credentials, tenant id, user id, environment).
\<close>

datatype AzureLoginStatus = Initializing | LoggingIn | LoggedIn | LoggedOut

fun status_string :: "AzureLoginStatus \<Rightarrow> string" where
  "status_string Initializing = ''Initializing''"
| "status_string LoggingIn = ''LoggingIn''"
| "status_string LoggedIn = ''LoggedIn''"
| "status_string LoggedOut = ''LoggedOut''"

text \<open>Credentials and the cloud environment are opaque objects: handles.\<close>

type_synonym ServiceClientCredentials = nat
type_synonym AzureEnvironment = string

record AzureSession =
  session_environment :: AzureEnvironment
  session_userId :: string
  session_tenantId :: string
  session_credentials :: ServiceClientCredentials

text \<open>The properties of a subscription are optional: \<open>None\<close> is \<^verbatim>\<open>undefined\<close>.\<close>

record Subscription =
  sub_id :: "string option"
  sub_subscriptionId :: "string option"
  sub_displayName :: "string option"

record AzureResourceFilter =
  session :: AzureSession
  subscription :: Subscription

text \<open>
  The account as one call of the tree item observes it: the status read before
  \<^verbatim>\<open>waitForFilters\<close>, how the promise of \<^verbatim>\<open>waitForFilters\<close> settles, and the
  filters read once it has.
\<close>

record AzureAccount =
  status :: AzureLoginStatus
  waitForFilters :: "bool outcome"
  filters :: "AzureResourceFilter list"

subsection \<open>Tree items\<close>

record ISubscriptionContext =
  credentials :: ServiceClientCredentials
  subscriptionDisplayName :: string
  subscriptionId :: string
  subscriptionPath :: string
  tenantId :: string
  userId :: string
  environment :: AzureEnvironment

text \<open>
  Modelled from the spec: the class \<^verbatim>\<open>SubscriptionTreeItemBase\<close> is not among the
  sources. A subscription node is a long-lived object: \<open>ref\<close> is its identity (its
  address), so two nodes are the same instance exactly when they are equal. \<open>ti_id\<close> is
  the property \<^verbatim>\<open>id\<close> the source compares with the filter's path (the identity key),
  \<open>root\<close> the subscription context the source copies from.
\<close>

record SubscriptionTreeItemBase =
  ref :: nat
  ti_id :: string
  root :: ISubscriptionContext

record TreeItemIconPath =
  light :: string
  dark :: string

text \<open>
  Modelled from the spec: the class \<^verbatim>\<open>GenericTreeItem\<close> is not among the sources. A
  placeholder node holds the options it was constructed with (an option left out is
  \<open>None\<close>) and the \<^verbatim>\<open>commandArgs\<close> assigned afterwards; it is actionable when it
  has a \<^verbatim>\<open>commandId\<close>, the command the host invokes for it.
\<close>

record GenericTreeItem =
  label :: string
  commandId :: "string option"
  contextValue :: string
  item_id :: "string option"
  includeInTreeItemPicker :: "bool option"
  iconPath :: "TreeItemIconPath option"
  commandArgs :: "string list option"

datatype AzExtTreeItem =
    GenericItem GenericTreeItem
  | SubscriptionItem SubscriptionTreeItemBase

definition signInLabel :: string where
  "signInLabel = ''Sign in to Azure...''"

definition createAccountLabel :: string where
  "createAccountLabel = ''Create a Free Azure Account...''"

definition selectSubscriptionsLabel :: string where
  "selectSubscriptionsLabel = ''Select Subscriptions...''"

definition signInCommandId :: string where
  "signInCommandId = ''azure-account.login''"

definition createAccountCommandId :: string where
  "createAccountCommandId = ''azure-account.createAccount''"

definition selectSubscriptionsCommandId :: string where
  "selectSubscriptionsCommandId = ''azure-account.selectSubscriptions''"

definition azureAccountExtensionId :: string where
  "azureAccountExtensionId = ''ms-vscode.azure-account''"

definition extensionOpenCommand :: string where
  "extensionOpenCommand = ''extension.open''"

subsection \<open>The action context\<close>

text \<open>
  The context a caller passes in: the two telemetry properties the source writes, and
  the fields of \<^verbatim>\<open>Partial<ISubscriptionWizardContext>\<close>, each absent (\<open>None\<close>) until
  assigned.
\<close>

record IActionContext =
  accountStatus :: "string option"
  cancelStep :: "string option"
  ctx_credentials :: "ServiceClientCredentials option"
  ctx_subscriptionDisplayName :: "string option"
  ctx_subscriptionId :: "string option"
  ctx_subscriptionPath :: "string option"
  ctx_tenantId :: "string option"
  ctx_userId :: "string option"
  ctx_environment :: "AzureEnvironment option"

text \<open>\<^verbatim>\<open>Object.assign(context, root)\<close>: every property of the root is copied.\<close>

definition Object_assign :: "IActionContext \<Rightarrow> ISubscriptionContext \<Rightarrow> IActionContext" where
  "Object_assign context r =
     context\<lparr>ctx_credentials := Some (credentials r),
             ctx_subscriptionDisplayName := Some (subscriptionDisplayName r),
             ctx_subscriptionId := Some (subscriptionId r),
             ctx_subscriptionPath := Some (subscriptionPath r),
             ctx_tenantId := Some (tenantId r),
             ctx_userId := Some (userId r),
             ctx_environment := Some (environment r)\<rparr>"

subsection \<open>The host and the state of the tree item\<close>

datatype arg = S string | B bool

record MessageItem =
  title :: string

record Extension =
  isActive :: bool
  activate :: "unit outcome"
  exports :: AzureAccount

text \<open>
  What the host answers: the extension \<^verbatim>\<open>extensions.getExtension\<close> finds, how the
  promise of \<^verbatim>\<open>commands.executeCommand\<close> settles for a command and its arguments, and
  how the promise of \<^verbatim>\<open>ext.ui.showWarningMessage\<close> settles (the item the user picked,
  \<open>None\<close> when there is none).
\<close>

record host =
  getExtension :: "Extension option"
  command_result :: "string \<Rightarrow> arg list \<Rightarrow> unit outcome"
  showWarningMessage :: "MessageItem option outcome"

text \<open>
  The two closures \<^verbatim>\<open>loadAzureAccount\<close> registers with the account; the disposable
  each registration returns stands for the listener it registered.
\<close>

datatype Disposable = FiltersChangedListener | StatusChangedListener

text \<open>
  The fields of \<^verbatim>\<open>this\<close> the source reads and writes, with what the host has seen of
  it: the commands executed, in order, and the number of calls of \<^verbatim>\<open>refresh\<close>. \<open>world\<close>
  is the state of everything the factory can read and change.
\<close>

record 'w tree =
  disposables :: "Disposable list"
  azureAccountTask :: "AzureAccount option outcome"
  subscriptionTreeItems :: "SubscriptionTreeItemBase list option"
  executed :: "(string \<times> arg list) list"
  refreshes :: nat
  world :: 'w

text \<open>
  The abstract method \<^verbatim>\<open>createSubscriptionTreeItem\<close>, implemented by a subclass: from the
  resolved context and the world to the way its promise settles and the world after.
\<close>

type_synonym 'w factory =
  "ISubscriptionContext \<Rightarrow> 'w \<Rightarrow> SubscriptionTreeItemBase outcome \<times> 'w"

subsection \<open>loadMoreChildrenImpl\<close>

definition hasMoreChildrenImpl :: bool where
  "hasMoreChildrenImpl = False"

definition installAzureAccountItem :: GenericTreeItem where
  "installAzureAccountItem =
     \<lparr>label = ''Install Azure Account Extension...'',
      commandId = Some extensionOpenCommand,
      contextValue = ''installAzureAccount'',
      item_id = None,
      includeInTreeItemPicker = Some True,
      iconPath = None,
      commandArgs = Some [azureAccountExtensionId]\<rparr>"

text \<open>
  The item of the branch for \<^verbatim>\<open>Initializing\<close> and \<^verbatim>\<open>LoggingIn\<close>. The icon paths are
  relative to the directory four levels above the module.
\<close>

definition loadingItem :: "AzureLoginStatus \<Rightarrow> GenericTreeItem" where
  "loadingItem st =
     \<lparr>label = (if st = Initializing then ''Loading...'' else ''Waiting for Azure sign-in...''),
      commandId = Some signInCommandId,
      contextValue = ''azureCommand'',
      item_id = Some signInCommandId,
      includeInTreeItemPicker = None,
      iconPath = Some \<lparr>light = ''resources/light/Loading.svg'',
                        dark = ''resources/dark/Loading.svg''\<rparr>,
      commandArgs = None\<rparr>"

definition commandItem :: "string \<Rightarrow> string \<Rightarrow> GenericTreeItem" where
  "commandItem lbl cmd =
     \<lparr>label = lbl,
      commandId = Some cmd,
      contextValue = ''azureCommand'',
      item_id = Some cmd,
      includeInTreeItemPicker = Some True,
      iconPath = None,
      commandArgs = None\<rparr>"

text \<open>The object literal handed to the factory; each \<^verbatim>\<open>nonNullProp\<close> may throw, in order.\<close>

definition resolvedContext :: "AzureResourceFilter \<Rightarrow> error + ISubscriptionContext" where
  "resolvedContext flt =
     (case nonNullProp (sub_displayName (subscription flt)) ''displayName'' of
        Inl e \<Rightarrow> Inl e
      | Inr dn \<Rightarrow>
          (case nonNullProp (sub_subscriptionId (subscription flt)) ''subscriptionId'' of
             Inl e \<Rightarrow> Inl e
           | Inr sid \<Rightarrow>
               (case nonNullProp (sub_id (subscription flt)) ''id'' of
                  Inl e \<Rightarrow> Inl e
                | Inr p \<Rightarrow>
                    Inr \<lparr>credentials = session_credentials (session flt),
                         subscriptionDisplayName = dn,
                         subscriptionId = sid,
                         subscriptionPath = p,
                         tenantId = session_tenantId (session flt),
                         userId = session_userId (session flt),
                         environment = session_environment (session flt)\<rparr>)))"

text \<open>
  The asynchronous callback of \<^verbatim>\<open>filters.map\<close>: \<^verbatim>\<open>ti.id === filter.subscription.id\<close>
  holds when the filter's id is present and is the string of the item.
\<close>

definition reconcileFilter ::
  "'w factory \<Rightarrow> SubscriptionTreeItemBase list \<Rightarrow> AzureResourceFilter \<Rightarrow> 'w
     \<Rightarrow> SubscriptionTreeItemBase outcome \<times> 'w" where
  "reconcileFilter createSubscriptionTreeItem existingSubscriptions flt w =
     (case find (\<lambda>ti. Some (ti_id ti) = sub_id (subscription flt)) existingSubscriptions of
        Some existingTreeItem \<Rightarrow> (Fulfilled existingTreeItem, w)
      | None \<Rightarrow>
          (case resolvedContext flt of
             Inl e \<Rightarrow> (Rejected e, w)
           | Inr c \<Rightarrow> createSubscriptionTreeItem c w))"

text \<open>
  \<^verbatim>\<open>Array.map\<close> with an asynchronous callback: the callback is entered for every
  element, in order, whatever becomes of the promises of the earlier ones.
\<close>

fun map_async :: "('a \<Rightarrow> 'w \<Rightarrow> 'b \<times> 'w) \<Rightarrow> 'a list \<Rightarrow> 'w \<Rightarrow> 'b list \<times> 'w" where
  "map_async f [] w = ([], w)"
| "map_async f (x # xs) w =
     (case f x w of (p, w1) \<Rightarrow>
        (case map_async f xs w1 of (ps, w2) \<Rightarrow> (p # ps, w2)))"

definition loadMoreChildrenImpl ::
  "'w factory \<Rightarrow> bool \<Rightarrow> IActionContext \<Rightarrow> 'w tree
     \<Rightarrow> AzExtTreeItem list outcome \<times> IActionContext \<times> 'w tree" where
  "loadMoreChildrenImpl createSubscriptionTreeItem clearCache context this =
     (case azureAccountTask this of
        Rejected e \<Rightarrow> (Rejected e, context, this)
      | Pending \<Rightarrow> (Pending, context, this)
      | Fulfilled None \<Rightarrow>
          (Fulfilled [GenericItem installAzureAccountItem],
           context\<lparr>accountStatus := Some ''notInstalled''\<rparr>, this)
      | Fulfilled (Some azureAccount) \<Rightarrow>
          (let context1 = context\<lparr>accountStatus := Some (status_string (status azureAccount))\<rparr>;
               existingSubscriptions =
                 (case subscriptionTreeItems this of Some items \<Rightarrow> items | None \<Rightarrow> []);
               this1 = this\<lparr>subscriptionTreeItems := Some []\<rparr>
           in
             if status azureAccount = Initializing \<or> status azureAccount = LoggingIn then
               (Fulfilled [GenericItem (loadingItem (status azureAccount))], context1, this1)
             else if status azureAccount = LoggedOut then
               (Fulfilled [GenericItem (commandItem signInLabel signInCommandId),
                           GenericItem (commandItem createAccountLabel createAccountCommandId)],
                context1, this1)
             else
               (case waitForFilters azureAccount of
                  Rejected e \<Rightarrow> (Rejected e, context1, this1)
                | Pending \<Rightarrow> (Pending, context1, this1)
                | Fulfilled ready \<Rightarrow>
                    if length (filters azureAccount) = 0 then
                      (Fulfilled [GenericItem (commandItem selectSubscriptionsLabel
                                                 selectSubscriptionsCommandId)],
                       context1, this1)
                    else
                      (case map_async (reconcileFilter createSubscriptionTreeItem
                                         existingSubscriptions)
                              (filters azureAccount) (world this1) of
                         (promises, w) \<Rightarrow>
                           (case Promise_all promises of
                              Rejected e \<Rightarrow> (Rejected e, context1, this1\<lparr>world := w\<rparr>)
                            | Pending \<Rightarrow> (Pending, context1, this1\<lparr>world := w\<rparr>)
                            | Fulfilled items \<Rightarrow>
                                (Fulfilled (map SubscriptionItem items), context1,
                                 this1\<lparr>subscriptionTreeItems := Some items,
                                        world := w\<rparr>))))))"

subsection \<open>loadAzureAccount and the listeners\<close>

text \<open>
  \<^verbatim>\<open>commands.executeCommand\<close>: the host records the command and its arguments and
  answers as it does for them.
\<close>

definition executeCommand ::
  "host \<Rightarrow> string \<Rightarrow> arg list \<Rightarrow> 'w tree \<Rightarrow> unit outcome \<times> 'w tree" where
  "executeCommand h cmd args this =
     (command_result h cmd args, this\<lparr>executed := executed this @ [(cmd, args)]\<rparr>)"

text \<open>
  The host-visible flag \<^verbatim>\<open>isAzureAccountInstalled\<close> has been set when the host has
  executed \<^verbatim>\<open>setContext\<close> for it.
\<close>

definition isAzureAccountInstalled :: "'w tree \<Rightarrow> bool" where
  "isAzureAccountInstalled this =
     ((''setContext'', [S ''isAzureAccountInstalled'', B True]) \<in> set (executed this))"

definition loadAzureAccount ::
  "host \<Rightarrow> AzureAccount option \<Rightarrow> 'w tree \<Rightarrow> AzureAccount option outcome \<times> 'w tree" where
  "loadAzureAccount h testAccount this =
     (let acquired =
        (case testAccount of
           Some a \<Rightarrow> Fulfilled (Some a)
         | None \<Rightarrow>
             (case getExtension h of
                None \<Rightarrow> Fulfilled None
              | Some extension \<Rightarrow>
                  if \<not> isActive extension then
                    (case activate extension of
                       Fulfilled u \<Rightarrow> Fulfilled (Some (exports extension))
                     | Rejected e \<Rightarrow> Rejected e
                     | Pending \<Rightarrow> Pending)
                  else Fulfilled (Some (exports extension))))
      in
        case acquired of
          Rejected e \<Rightarrow> (Rejected e, this)
        | Pending \<Rightarrow> (Pending, this)
        | Fulfilled None \<Rightarrow> (Fulfilled None, this)
        | Fulfilled (Some azureAccount) \<Rightarrow>
            (let this1 = this\<lparr>disposables := disposables this @ [FiltersChangedListener]\<rparr>;
                 this2 = this1\<lparr>disposables := disposables this1 @ [StatusChangedListener]\<rparr>
             in
               case executeCommand h ''setContext'' [S ''isAzureAccountInstalled'', B True] this2 of
                 (Rejected e, this3) \<Rightarrow> (Rejected e, this3)
               | (Pending, this3) \<Rightarrow> (Pending, this3)
               | (Fulfilled u, this3) \<Rightarrow> (Fulfilled (Some azureAccount), this3)))"

text \<open>
  The constructor: a tree item with no disposables and no subscription nodes, whose
  account task is the call of \<^verbatim>\<open>loadAzureAccount\<close>.
\<close>

definition new_AzureAccountTreeItemBase ::
  "host \<Rightarrow> AzureAccount option \<Rightarrow> 'w \<Rightarrow> 'w tree" where
  "new_AzureAccountTreeItemBase h testAccount w =
     (case loadAzureAccount h testAccount
             \<lparr>disposables = [], azureAccountTask = Pending, subscriptionTreeItems = None,
              executed = [], refreshes = 0, world = w\<rparr> of
        (task, this) \<Rightarrow> this\<lparr>azureAccountTask := task\<rparr>)"

text \<open>
  Modelled from the spec: \<^verbatim>\<open>refresh\<close> is inherited from the base class of tree items,
  which is not among the sources. The spec has a listener schedule a refresh of the node's
  children; the model counts the refreshes asked for.
\<close>

definition refresh :: "'w tree \<Rightarrow> 'w tree" where
  "refresh this = this\<lparr>refreshes := Suc (refreshes this)\<rparr>"

definition onFiltersChanged_listener :: "'w tree \<Rightarrow> 'w tree" where
  "onFiltersChanged_listener this = refresh this"

definition onStatusChanged_listener :: "AzureLoginStatus \<Rightarrow> 'w tree \<Rightarrow> 'w tree" where
  "onStatusChanged_listener st this = (if st \<noteq> LoggedIn then refresh this else this)"

datatype AzureEvent = FiltersChanged | StatusChanged AzureLoginStatus

text \<open>An event of the account reaches the listeners registered for its kind.\<close>

fun notify :: "Disposable \<Rightarrow> AzureEvent \<Rightarrow> 'w tree \<Rightarrow> 'w tree" where
  "notify FiltersChangedListener FiltersChanged this = onFiltersChanged_listener this"
| "notify StatusChangedListener (StatusChanged st) this = onStatusChanged_listener st this"
| "notify FiltersChangedListener (StatusChanged st) this = this"
| "notify StatusChangedListener FiltersChanged this = this"

definition fire :: "AzureEvent \<Rightarrow> 'w tree \<Rightarrow> 'w tree" where
  "fire ev this = fold (\<lambda>d. notify d ev) (disposables this) this"

subsection \<open>The subscription prompt step\<close>

text \<open>
  Modelled from the spec: \<^verbatim>\<open>getCachedChildren\<close> is inherited from the parent tree item,
  which is not among the sources. The spec has it force a reconciliation pass when none has
  been done: a call of \<^verbatim>\<open>loadMoreChildrenImpl\<close>.
\<close>

definition getCachedChildren ::
  "'w factory \<Rightarrow> IActionContext \<Rightarrow> 'w tree
     \<Rightarrow> AzExtTreeItem list outcome \<times> IActionContext \<times> 'w tree" where
  "getCachedChildren createSubscriptionTreeItem context this =
     loadMoreChildrenImpl createSubscriptionTreeItem True context this"

definition viewInMarketplace :: MessageItem where
  "viewInMarketplace = \<lparr>title = ''View in Marketplace''\<rparr>"

definition ensureSubscriptionTreeItems ::
  "host \<Rightarrow> 'w factory \<Rightarrow> IActionContext \<Rightarrow> 'w tree
     \<Rightarrow> SubscriptionTreeItemBase list outcome \<times> IActionContext \<times> 'w tree" where
  "ensureSubscriptionTreeItems h createSubscriptionTreeItem context this =
     (case azureAccountTask this of
        Rejected e \<Rightarrow> (Rejected e, context, this)
      | Pending \<Rightarrow> (Pending, context, this)
      | Fulfilled None \<Rightarrow>
          (let context1 = context\<lparr>cancelStep := Some ''requiresAzureAccount''\<rparr> in
             case showWarningMessage h of
               Rejected e \<Rightarrow> (Rejected e, context1, this)
             | Pending \<Rightarrow> (Pending, context1, this)
             | Fulfilled picked \<Rightarrow>
                 if picked = Some viewInMarketplace then
                   (case executeCommand h extensionOpenCommand [S azureAccountExtensionId] this of
                      (Rejected e, this1) \<Rightarrow> (Rejected e, context1, this1)
                    | (Pending, this1) \<Rightarrow> (Pending, context1, this1)
                    | (Fulfilled u, this1) \<Rightarrow> (Rejected UserCancelledError, context1, this1))
                 else (Rejected UserCancelledError, context1, this))
      | Fulfilled (Some azureAccount) \<Rightarrow>
          (case (if subscriptionTreeItems this = None
                 then getCachedChildren createSubscriptionTreeItem context this
                 else (Fulfilled [], context, this)) of
             (Rejected e, context1, this1) \<Rightarrow> (Rejected e, context1, this1)
           | (Pending, context1, this1) \<Rightarrow> (Pending, context1, this1)
           | (Fulfilled children, context1, this1) \<Rightarrow>
               (case nonNullValue (subscriptionTreeItems this1) ''subscriptionTreeItems'' of
                  Inl e \<Rightarrow> (Rejected e, context1, this1)
                | Inr items \<Rightarrow> (Fulfilled items, context1, this1))))"

text \<open>
  The class \<^verbatim>\<open>SubscriptionPromptStep\<close> declared inside \<^verbatim>\<open>getSubscriptionPromptStep\<close>. Its
  methods read the caller's context when they are called, so the context is their argument.
\<close>

datatype AzureWizardPromptStep = SubscriptionPromptStep

text \<open>A string that is absent or empty is falsy in JavaScript.\<close>

definition truthy :: "string option \<Rightarrow> bool" where
  "truthy v = (case v of None \<Rightarrow> False | Some s \<Rightarrow> s \<noteq> [])"

fun shouldPrompt :: "AzureWizardPromptStep \<Rightarrow> IActionContext \<Rightarrow> bool" where
  "shouldPrompt SubscriptionPromptStep context = (\<not> truthy (ctx_subscriptionId context))"

text \<open>\<^verbatim>\<open>prompt\<close>: \<open>picked\<close> is how the promise of the tree item picker settles.\<close>

fun prompt ::
  "AzureWizardPromptStep \<Rightarrow> SubscriptionTreeItemBase outcome \<Rightarrow> IActionContext
     \<Rightarrow> unit outcome \<times> IActionContext" where
  "prompt SubscriptionPromptStep (Fulfilled ti) context =
     (Fulfilled (), Object_assign context (root ti))"
| "prompt SubscriptionPromptStep (Rejected e) context = (Rejected e, context)"
| "prompt SubscriptionPromptStep Pending context = (Pending, context)"

definition getSubscriptionPromptStep ::
  "host \<Rightarrow> 'w factory \<Rightarrow> IActionContext \<Rightarrow> 'w tree
     \<Rightarrow> AzureWizardPromptStep option outcome \<times> IActionContext \<times> 'w tree" where
  "getSubscriptionPromptStep h createSubscriptionTreeItem context this =
     (case ensureSubscriptionTreeItems h createSubscriptionTreeItem context this of
        (Rejected e, context1, this1) \<Rightarrow> (Rejected e, context1, this1)
      | (Pending, context1, this1) \<Rightarrow> (Pending, context1, this1)
      | (Fulfilled subscriptions, context1, this1) \<Rightarrow>
          if length subscriptions = 1 then
            (Fulfilled None, Object_assign context1 (root (subscriptions ! 0)), this1)
          else
            (Fulfilled (Some SubscriptionPromptStep), context1, this1))"

subsection \<open>Scenarios\<close>

text \<open>
  Concrete data on which the theorems below are instantiated: a session, filters and nodes
  named by a subscription id, and a factory that gives each node it creates the next free
  reference (the world is the next free reference) and the subscription path as its id.
  A second factory fails for one subscription while the next free reference is below 3 and
  creates nodes like the first otherwise. The host finds no extension, runs every command
  to its end and answers the warning with the item given.
\<close>

definition exampleSession :: AzureSession where
  "exampleSession =
     \<lparr>session_environment = ''AzureCloud'', session_userId = ''user'',
      session_tenantId = ''tenant'', session_credentials = 7\<rparr>"

definition exampleFilter :: "string \<Rightarrow> AzureResourceFilter" where
  "exampleFilter p =
     \<lparr>session = exampleSession,
      subscription = \<lparr>sub_id = Some (''/sub/'' @ p), sub_subscriptionId = Some p,
                      sub_displayName = Some (''Subscription '' @ p)\<rparr>\<rparr>"

definition exampleRoot :: "string \<Rightarrow> ISubscriptionContext" where
  "exampleRoot p =
     \<lparr>credentials = 7, subscriptionDisplayName = ''Subscription '' @ p, subscriptionId = p,
      subscriptionPath = ''/sub/'' @ p, tenantId = ''tenant'', userId = ''user'',
      environment = ''AzureCloud''\<rparr>"

definition exampleNode :: "nat \<Rightarrow> string \<Rightarrow> SubscriptionTreeItemBase" where
  "exampleNode r p = \<lparr>ref = r, ti_id = ''/sub/'' @ p, root = exampleRoot p\<rparr>"

definition countingFactory :: "nat factory" where
  "countingFactory c w = (Fulfilled \<lparr>ref = w, ti_id = subscriptionPath c, root = c\<rparr>, Suc w)"

definition emptyContext :: IActionContext where
  "emptyContext =
     \<lparr>accountStatus = None, cancelStep = None, ctx_credentials = None,
      ctx_subscriptionDisplayName = None, ctx_subscriptionId = None,
      ctx_subscriptionPath = None, ctx_tenantId = None, ctx_userId = None,
      ctx_environment = None\<rparr>"

definition exampleAccount :: "AzureLoginStatus \<Rightarrow> string list \<Rightarrow> AzureAccount" where
  "exampleAccount st ps =
     \<lparr>status = st, waitForFilters = Fulfilled True, filters = map exampleFilter ps\<rparr>"

definition exampleTree ::
  "AzureAccount option \<Rightarrow> SubscriptionTreeItemBase list option \<Rightarrow> nat \<Rightarrow> nat tree" where
  "exampleTree account items w =
     \<lparr>disposables = [], azureAccountTask = Fulfilled account, subscriptionTreeItems = items,
      executed = [], refreshes = 0, world = w\<rparr>"

definition flakyFactory :: "nat factory" where
  "flakyFactory c w =
     (if subscriptionPath c = ''/sub/3'' \<and> w < 3
      then (Rejected (ExternalError ''unavailable''), Suc w)
      else countingFactory c w)"

definition exampleHost :: "MessageItem option \<Rightarrow> host" where
  "exampleHost picked =
     \<lparr>getExtension = None, command_result = (\<lambda>cmd args. Fulfilled ()),
      showWarningMessage = Fulfilled picked\<rparr>"

section \<open>Properties\<close>

subsection \<open>Array.map, Promise.all and the reconciliation branch\<close>

lemma map_async_Cons_fst:
  "fst (map_async f (x # xs) w) = fst (f x w) # fst (map_async f xs (snd (f x w)))"
  by (simp split: prod.splits)

lemma map_async_Cons_snd:
  "snd (map_async f (x # xs) w) = snd (map_async f xs (snd (f x w)))"
  by (simp split: prod.splits)

lemma map_async_length: "length (fst (map_async f xs w)) = length xs"
  by (induction xs arbitrary: w) (simp_all add: map_async_Cons_fst del: map_async.simps(2))

lemma map_async_nth:
  "i < length xs \<Longrightarrow>
     fst (map_async f xs w) ! i = fst (f (xs ! i) (snd (map_async f (take i xs) w)))"
proof (induction xs arbitrary: w i)
  case Nil
  then show ?case by simp
next
  case (Cons x xs)
  show ?case
  proof (cases i)
    case 0
    then show ?thesis by (simp add: map_async_Cons_fst del: map_async.simps(2))
  next
    case (Suc j)
    with Cons.prems have "j < length xs" by simp
    from Cons.IH [OF this] Suc show ?thesis
      by (simp add: map_async_Cons_fst map_async_Cons_snd del: map_async.simps(2))
  qed
qed

lemma Promise_all_Fulfilled: "Promise_all ps = Fulfilled vs \<Longrightarrow> ps = map Fulfilled vs"
proof (induction ps arbitrary: vs rule: Promise_all.induct)
  case 1
  then show ?case by simp
next
  case (2 e ps)
  then show ?case by simp
next
  case (3 v ps)
  then show ?case by (auto split: outcome.splits)
next
  case (4 ps)
  then show ?case by (auto split: outcome.splits)
qed

lemma Promise_all_Rejected_mem: "Promise_all ps = Rejected e \<Longrightarrow> Rejected e \<in> set ps"
  by (induction ps arbitrary: e rule: Promise_all.induct) (auto split: outcome.splits)

lemma Promise_all_rejects: "Rejected e \<in> set ps \<Longrightarrow> \<exists>e'. Promise_all ps = Rejected e'"
  by (induction ps rule: Promise_all.induct) (auto split: outcome.splits)


lemma loadMoreChildrenImpl_reconcile:
  assumes "azureAccountTask this = Fulfilled (Some account)"
    and "status account = LoggedIn"
    and "waitForFilters account = Fulfilled ready"
    and "filters account \<noteq> []"
    and "previous = (case subscriptionTreeItems this of Some items \<Rightarrow> items | None \<Rightarrow> [])"
    and "r = map_async (reconcileFilter create previous) (filters account) (world this)"
    and "context1 = context\<lparr>accountStatus := Some (status_string (status account))\<rparr>"
  shows "loadMoreChildrenImpl create clearCache context this =
     (case Promise_all (fst r) of
        Rejected e \<Rightarrow>
          (Rejected e, context1, this\<lparr>subscriptionTreeItems := Some [], world := snd r\<rparr>)
      | Pending \<Rightarrow>
          (Pending, context1, this\<lparr>subscriptionTreeItems := Some [], world := snd r\<rparr>)
      | Fulfilled items \<Rightarrow>
          (Fulfilled (map SubscriptionItem items), context1,
           this\<lparr>subscriptionTreeItems := Some items, world := snd r\<rparr>))"
  using assms
  by (simp add: loadMoreChildrenImpl_def Let_def split: prod.splits outcome.splits)

lemma find_Some_member: "find P xs = Some x \<Longrightarrow> x \<in> set xs \<and> P x"
  by (auto simp: find_Some_iff)

text \<open>
  What a fulfilled reconciliation returns: one node per filter, each the value of the promise
  of the callback for that filter, entered in the world the earlier callbacks left.
\<close>

lemma loadMoreChildrenImpl_fulfilled:
  assumes task: "azureAccountTask this = Fulfilled (Some account)"
    and st: "status account = LoggedIn"
    and wf: "waitForFilters account = Fulfilled ready"
    and ne: "filters account \<noteq> []"
    and prev: "previous = (case subscriptionTreeItems this of Some items \<Rightarrow> items | None \<Rightarrow> [])"
    and run: "loadMoreChildrenImpl create clearCache context this =
                (Fulfilled children, context', this')"
  shows "\<exists>items. children = map SubscriptionItem items \<and>
           subscriptionTreeItems this' = Some items \<and>
           length items = length (filters account) \<and>
           (\<forall>i < length (filters account).
              fst (reconcileFilter create previous (filters account ! i)
                     (snd (map_async (reconcileFilter create previous)
                             (take i (filters account)) (world this))))
                = Fulfilled (items ! i))"
proof -
  define r where "r = map_async (reconcileFilter create previous) (filters account) (world this)"
  define context1 where
    "context1 = context\<lparr>accountStatus := Some (status_string (status account))\<rparr>"
  note eq = loadMoreChildrenImpl_reconcile [OF task st wf ne prev r_def context1_def,
      of clearCache]
  from run eq obtain items where
    all: "Promise_all (fst r) = Fulfilled items"
    and ch: "children = map SubscriptionItem items"
    and th: "this' = this\<lparr>subscriptionTreeItems := Some items, world := snd r\<rparr>"
    by (auto split: outcome.splits)
  from all have ps: "fst r = map Fulfilled items"
    by (rule Promise_all_Fulfilled)
  have len: "length items = length (filters account)"
    using ps map_async_length [of "reconcileFilter create previous" "filters account" "world this"]
    by (simp add: r_def)
  have step: "fst (reconcileFilter create previous (filters account ! i)
               (snd (map_async (reconcileFilter create previous) (take i (filters account))
                  (world this))))
             = Fulfilled (items ! i)" if "i < length (filters account)" for i
    using map_async_nth [OF that, of "reconcileFilter create previous" "world this"] ps len that
    by (simp add: r_def)
  from ch th len step show ?thesis by simp
qed

subsection \<open>Unfolding the scenarios, and facts shared by several properties\<close>

lemma reconcile_promise_nth:
  assumes "i < length flts"
  shows "fst (map_async (reconcileFilter create previous) flts w) ! i =
         fst (reconcileFilter create previous (flts ! i)
                (snd (map_async (reconcileFilter create previous) (take i flts) w)))"
  using assms by (rule map_async_nth)

lemmas scenario_defs =
  exampleTree_def exampleAccount_def exampleFilter_def exampleNode_def exampleRoot_def
  exampleSession_def countingFactory_def flakyFactory_def emptyContext_def

lemmas reconcile_defs =
  loadMoreChildrenImpl_def reconcileFilter_def resolvedContext_def nonNullProp_def Let_def

lemma loadAzureAccount_absent:
  "getExtension h = None \<Longrightarrow> loadAzureAccount h None this = (Fulfilled None, this)"
  by (simp add: loadAzureAccount_def)

lemma loadAzureAccount_registers:
  assumes "fst (loadAzureAccount h testAccount this) = Fulfilled (Some account)"
  shows "disposables (snd (loadAzureAccount h testAccount this))
           = disposables this @ [FiltersChangedListener, StatusChangedListener]
         \<and> refreshes (snd (loadAzureAccount h testAccount this)) = refreshes this"
  using assms
  by (auto simp: loadAzureAccount_def executeCommand_def Let_def
      split: option.splits outcome.splits if_splits)

lemma fire_registered:
  assumes "disposables this = [FiltersChangedListener, StatusChangedListener]"
  shows "fire ev this = notify StatusChangedListener ev (notify FiltersChangedListener ev this)"
  using assms by (simp add: fire_def)

lemma loadMoreChildrenImpl_caches:
  assumes "azureAccountTask this = Fulfilled (Some account)"
  shows "subscriptionTreeItems
           (snd (snd (loadMoreChildrenImpl createSubscriptionTreeItem clearCache context this)))
         \<noteq> None"
  using assms
  by (simp add: loadMoreChildrenImpl_def Let_def split: prod.splits outcome.splits)

lemma Promise_all_map_Fulfilled: "Promise_all (map Fulfilled vs) = Fulfilled vs"
  by (induction vs) simp_all

lemma all_Fulfilled_map:
  "(\<forall>i < length ps. \<exists>v. ps ! i = Fulfilled v) \<Longrightarrow> \<exists>vs. ps = map Fulfilled vs"
proof (induction ps)
  case Nil
  then show ?case by simp
next
  case (Cons p ps)
  from Cons.prems have "\<exists>v. (p # ps) ! 0 = Fulfilled v" by blast
  then obtain v where p: "p = Fulfilled v" by auto
  have "\<forall>i < length ps. \<exists>v. ps ! i = Fulfilled v"
  proof (intro allI impI)
    fix i assume "i < length ps"
    then have "Suc i < length (p # ps)" by simp
    with Cons.prems have "\<exists>v. (p # ps) ! Suc i = Fulfilled v" by blast
    then show "\<exists>v. ps ! i = Fulfilled v" by simp
  qed
  from Cons.IH [OF this] obtain vs where "ps = map Fulfilled vs" by blast
  with p have "p # ps = map Fulfilled (v # vs)" by simp
  then show ?case by (rule exI)
qed

text \<open>The pass returns when the promise of every callback is fulfilled.\<close>

lemma loadMoreChildrenImpl_returns:
  assumes task: "azureAccountTask this = Fulfilled (Some account)"
    and st: "status account = LoggedIn"
    and wf: "waitForFilters account = Fulfilled ready"
    and ne: "filters account \<noteq> []"
    and prev: "previous = (case subscriptionTreeItems this of Some items \<Rightarrow> items | None \<Rightarrow> [])"
    and settled: "\<forall>i < length (filters account).
        find (\<lambda>ti. Some (ti_id ti) = sub_id (subscription (filters account ! i))) previous = None
        \<longrightarrow> (\<exists>c created.
               resolvedContext (filters account ! i) = Inr c \<and>
               fst (create c (snd (map_async (reconcileFilter create previous)
                                    (take i (filters account)) (world this))))
                 = Fulfilled created)"
  shows "\<exists>items.
           loadMoreChildrenImpl create clearCache context this
             = (Fulfilled (map SubscriptionItem items),
                context\<lparr>accountStatus := Some ''LoggedIn''\<rparr>,
                this\<lparr>subscriptionTreeItems := Some items,
                     world := snd (map_async (reconcileFilter create previous)
                                     (filters account) (world this))\<rparr>)"
proof -
  define r where "r = map_async (reconcileFilter create previous) (filters account) (world this)"
  define context1 where
    "context1 = context\<lparr>accountStatus := Some (status_string (status account))\<rparr>"
  note eq = loadMoreChildrenImpl_reconcile [OF task st wf ne prev r_def context1_def,
      of clearCache]
  have len: "length (fst r) = length (filters account)"
    by (simp add: r_def map_async_length)
  have "\<exists>v. fst r ! i = Fulfilled v" if i: "i < length (filters account)" for i
  proof (cases "find (\<lambda>ti. Some (ti_id ti) = sub_id (subscription (filters account ! i))) previous")
    case None
    with settled i obtain c created where
      "resolvedContext (filters account ! i) = Inr c"
      "fst (create c (snd (map_async (reconcileFilter create previous)
                             (take i (filters account)) (world this))))
         = Fulfilled created"
      by blast
    with None reconcile_promise_nth [OF i, of create previous "world this"] show ?thesis
      by (simp add: r_def reconcileFilter_def)
  next
    case (Some found)
    with reconcile_promise_nth [OF i, of create previous "world this"] show ?thesis
      by (simp add: r_def reconcileFilter_def)
  qed
  with len have "\<forall>i < length (fst r). \<exists>v. fst r ! i = Fulfilled v"
    by simp
  from all_Fulfilled_map [OF this] obtain items where "fst r = map Fulfilled items"
    by blast
  then have "Promise_all (fst r) = Fulfilled items"
    by (simp add: Promise_all_map_Fulfilled)
  with eq st have "loadMoreChildrenImpl create clearCache context this
             = (Fulfilled (map SubscriptionItem items),
                context\<lparr>accountStatus := Some ''LoggedIn''\<rparr>,
                this\<lparr>subscriptionTreeItems := Some items,
                     world := snd (map_async (reconcileFilter create previous)
                                     (filters account) (world this))\<rparr>)"
    by (simp add: context1_def r_def)
  then show ?thesis by (rule exI)
qed

subsection \<open>Reconciliation\<close>

text \<open>
  Claim C1. A reconciliation pass (the account is logged in and has filters) returns exactly
  when the promise of every callback is fulfilled, that is when every filter with no node of
  its id in the previous list has a complete resolved context and a fulfilled factory
  promise. It then returns one node per filter, in the order of the filters, and caches
  that list. A filter whose fully-qualified subscription id is the id of a node of the
  previous list yields the node that \<^verbatim>\<open>find\<close> returns for it: the first such node of the
  previous list, the very instance and not a copy. Every other filter yields the node the
  factory created for the resolved context of that filter. When the ids of the previous
  list are distinct, the node reused is every node of the previous list with that id.
\<close>

theorem reconcile_reuses_or_creates:
  assumes task: "azureAccountTask this = Fulfilled (Some account)"
    and st: "status account = LoggedIn"
    and wf: "waitForFilters account = Fulfilled ready"
    and ne: "filters account \<noteq> []"
    and prev: "previous = (case subscriptionTreeItems this of Some items \<Rightarrow> items | None \<Rightarrow> [])"
    and settled: "settled =
      (\<forall>i < length (filters account).
         find (\<lambda>ti. Some (ti_id ti) = sub_id (subscription (filters account ! i))) previous = None
         \<longrightarrow> (\<exists>c created.
                resolvedContext (filters account ! i) = Inr c \<and>
                fst (create c (snd (map_async (reconcileFilter create previous)
                                     (take i (filters account)) (world this))))
                  = Fulfilled created))"
  shows "(settled \<longrightarrow>
           (\<exists>items.
              loadMoreChildrenImpl create clearCache context this
                = (Fulfilled (map SubscriptionItem items),
                   context\<lparr>accountStatus := Some ''LoggedIn''\<rparr>,
                   this\<lparr>subscriptionTreeItems := Some items,
                        world := snd (map_async (reconcileFilter create previous)
                                        (filters account) (world this))\<rparr>) \<and>
              length items = length (filters account) \<and>
              (\<forall>i < length (filters account).
                 case find (\<lambda>ti. Some (ti_id ti) = sub_id (subscription (filters account ! i)))
                        previous of
                   Some existingTreeItem \<Rightarrow>
                     items ! i = existingTreeItem \<and> existingTreeItem \<in> set previous
                 | None \<Rightarrow>
                     (\<exists>c. resolvedContext (filters account ! i) = Inr c \<and>
                          fst (create c (snd (map_async (reconcileFilter create previous)
                                               (take i (filters account)) (world this))))
                            = Fulfilled (items ! i))) \<and>
              (distinct (map ti_id previous) \<longrightarrow>
                 (\<forall>i < length (filters account). \<forall>ti \<in> set previous.
                    Some (ti_id ti) = sub_id (subscription (filters account ! i)) \<longrightarrow>
                    items ! i = ti))))
         \<and> ((\<exists>children context' this'.
                loadMoreChildrenImpl create clearCache context this
                  = (Fulfilled children, context', this')) \<longrightarrow> settled)"
proof -
  let ?W = "\<lambda>i. snd (map_async (reconcileFilter create previous) (take i (filters account))
                      (world this))"
  let ?found = "\<lambda>i. find (\<lambda>ti. Some (ti_id ti) = sub_id (subscription (filters account ! i)))
                        previous"
  have props: "length items = length (filters account) \<and>
              (\<forall>i < length (filters account).
                 case ?found i of
                   Some existingTreeItem \<Rightarrow>
                     items ! i = existingTreeItem \<and> existingTreeItem \<in> set previous
                 | None \<Rightarrow>
                     (\<exists>c. resolvedContext (filters account ! i) = Inr c \<and>
                          fst (create c (?W i)) = Fulfilled (items ! i))) \<and>
              (distinct (map ti_id previous) \<longrightarrow>
                 (\<forall>i < length (filters account). \<forall>ti \<in> set previous.
                    Some (ti_id ti) = sub_id (subscription (filters account ! i)) \<longrightarrow>
                    items ! i = ti))"
    if run: "loadMoreChildrenImpl create clearCache context this
               = (Fulfilled (map SubscriptionItem items), context', this')"
    for items context' this'
  proof -
    from loadMoreChildrenImpl_fulfilled [OF task st wf ne prev run] obtain items' where
      same: "map SubscriptionItem items = map SubscriptionItem items'"
      and len': "length items' = length (filters account)"
      and step': "\<And>i. i < length (filters account) \<Longrightarrow>
                fst (reconcileFilter create previous (filters account ! i) (?W i))
                  = Fulfilled (items' ! i)"
      by blast
    from same have "items' = items"
      by (simp add: inj_on_def inj_map_eq_map [of SubscriptionItem, unfolded inj_on_def])
    with len' step' have len: "length items = length (filters account)"
      and step: "\<And>i. i < length (filters account) \<Longrightarrow>
                fst (reconcileFilter create previous (filters account ! i) (?W i))
                  = Fulfilled (items ! i)"
      by simp_all
    have each: "case ?found i of
                   Some existingTreeItem \<Rightarrow>
                     items ! i = existingTreeItem \<and> existingTreeItem \<in> set previous
                 | None \<Rightarrow>
                     (\<exists>c. resolvedContext (filters account ! i) = Inr c \<and>
                          fst (create c (?W i)) = Fulfilled (items ! i))"
      if i: "i < length (filters account)" for i
    proof (cases "?found i")
      case None
      with step [OF i] show ?thesis
        by (auto simp: reconcileFilter_def split: sum.splits)
    next
      case (Some found)
      then have "found \<in> set previous"
        by (rule find_Some_member [THEN conjunct1])
      with Some step [OF i] show ?thesis
        by (simp add: reconcileFilter_def)
    qed
    have dist: "items ! i = ti"
      if "distinct (map ti_id previous)" "i < length (filters account)" "ti \<in> set previous"
        "Some (ti_id ti) = sub_id (subscription (filters account ! i))" for i ti
    proof -
      from that(3,4) obtain found where f: "?found i = Some found"
        by (cases "?found i") (auto simp: find_None_iff)
      with each [OF that(2)] have c: "items ! i = found" and m: "found \<in> set previous"
        by simp_all
      from find_Some_member [OF f]
      have "Some (ti_id found) = sub_id (subscription (filters account ! i))"
        by simp
      with that(4) have "ti_id found = ti_id ti" by (metis option.inject)
      with that(1,3) m have "found = ti"
        by (meson distinct_map inj_onD)
      with c show ?thesis by simp
    qed
    from len each dist show ?thesis by simp
  qed
  have total: "\<exists>items.
              loadMoreChildrenImpl create clearCache context this
                = (Fulfilled (map SubscriptionItem items),
                   context\<lparr>accountStatus := Some ''LoggedIn''\<rparr>,
                   this\<lparr>subscriptionTreeItems := Some items,
                        world := snd (map_async (reconcileFilter create previous)
                                        (filters account) (world this))\<rparr>) \<and>
              length items = length (filters account) \<and>
              (\<forall>i < length (filters account).
                 case ?found i of
                   Some existingTreeItem \<Rightarrow>
                     items ! i = existingTreeItem \<and> existingTreeItem \<in> set previous
                 | None \<Rightarrow>
                     (\<exists>c. resolvedContext (filters account ! i) = Inr c \<and>
                          fst (create c (?W i)) = Fulfilled (items ! i))) \<and>
              (distinct (map ti_id previous) \<longrightarrow>
                 (\<forall>i < length (filters account). \<forall>ti \<in> set previous.
                    Some (ti_id ti) = sub_id (subscription (filters account ! i)) \<longrightarrow>
                    items ! i = ti))"
    if settled
  proof -
    from that settled have "\<forall>i < length (filters account).
         ?found i = None
         \<longrightarrow> (\<exists>c created.
                resolvedContext (filters account ! i) = Inr c \<and>
                fst (create c (?W i)) = Fulfilled created)"
      by simp
    from loadMoreChildrenImpl_returns [OF task st wf ne prev this, of clearCache "context"]
    obtain items where
      run: "loadMoreChildrenImpl create clearCache context this
                = (Fulfilled (map SubscriptionItem items),
                   context\<lparr>accountStatus := Some ''LoggedIn''\<rparr>,
                   this\<lparr>subscriptionTreeItems := Some items,
                        world := snd (map_async (reconcileFilter create previous)
                                        (filters account) (world this))\<rparr>)"
      by blast
    from run props [OF run] show ?thesis by blast
  qed
  have only: settled
    if "\<exists>children context' this'.
          loadMoreChildrenImpl create clearCache context this
            = (Fulfilled children, context', this')"
  proof -
    from that obtain children context' this' where
      run: "loadMoreChildrenImpl create clearCache context this
              = (Fulfilled children, context', this')"
      by blast
    from loadMoreChildrenImpl_fulfilled [OF task st wf ne prev run] obtain items where
      step: "\<And>i. i < length (filters account) \<Longrightarrow>
                fst (reconcileFilter create previous (filters account ! i) (?W i))
                  = Fulfilled (items ! i)"
      by blast
    have "\<exists>c created.
                resolvedContext (filters account ! i) = Inr c \<and>
                fst (create c (?W i)) = Fulfilled created"
      if "i < length (filters account)" "?found i = None" for i
      using step [OF that(1)] that(2)
      by (auto simp: reconcileFilter_def split: sum.splits)
    with settled show ?thesis by simp
  qed
  from total only show ?thesis by blast
qed


theorem reconcile_reuses_or_creates_witness:
  "loadMoreChildrenImpl countingFactory True emptyContext
     (exampleTree (Some (exampleAccount LoggedIn [''2'', ''3'']))
        (Some [exampleNode 0 ''1'', exampleNode 1 ''2'']) 2)
   = (Fulfilled [SubscriptionItem (exampleNode 1 ''2''), SubscriptionItem (exampleNode 2 ''3'')],
      emptyContext\<lparr>accountStatus := Some ''LoggedIn''\<rparr>,
      exampleTree (Some (exampleAccount LoggedIn [''2'', ''3'']))
        (Some [exampleNode 1 ''2'', exampleNode 2 ''3'']) 3)
   \<and> length [exampleNode 1 ''2'', exampleNode 2 ''3'']
       = length (filters (exampleAccount LoggedIn [''2'', ''3'']))
   \<and> find (\<lambda>ti. Some (ti_id ti)
              = sub_id (subscription (filters (exampleAccount LoggedIn [''2'', ''3'']) ! 0)))
        [exampleNode 0 ''1'', exampleNode 1 ''2''] = Some (exampleNode 1 ''2'')
   \<and> find (\<lambda>ti. Some (ti_id ti)
              = sub_id (subscription (filters (exampleAccount LoggedIn [''2'', ''3'']) ! 1)))
        [exampleNode 0 ''1'', exampleNode 1 ''2''] = None
   \<and> loadMoreChildrenImpl countingFactory True emptyContext
       (exampleTree (Some (exampleAccount LoggedIn [''2'', ''3'', ''4'']))
          (Some [exampleNode 0 ''1'', exampleNode 1 ''2'']) 2)
     = (Fulfilled [SubscriptionItem (exampleNode 1 ''2''), SubscriptionItem (exampleNode 2 ''3''),
                   SubscriptionItem (exampleNode 3 ''4'')],
        emptyContext\<lparr>accountStatus := Some ''LoggedIn''\<rparr>,
        exampleTree (Some (exampleAccount LoggedIn [''2'', ''3'', ''4'']))
          (Some [exampleNode 1 ''2'', exampleNode 2 ''3'', exampleNode 3 ''4'']) 4)"
proof -
  let ?previous = "[exampleNode 0 ''1'', exampleNode 1 ''2'']"
  let ?two = "exampleAccount LoggedIn [''2'', ''3'']"
  let ?three = "exampleAccount LoggedIn [''2'', ''3'', ''4'']"
  have task: "azureAccountTask (exampleTree (Some a) (Some ?previous) 2) = Fulfilled (Some a)" for a
    by (simp add: exampleTree_def)
  have st: "status (exampleAccount LoggedIn ps) = LoggedIn" for ps
    by (simp add: exampleAccount_def)
  have wf: "waitForFilters (exampleAccount LoggedIn ps) = Fulfilled True" for ps
    by (simp add: exampleAccount_def)
  have ne2: "filters ?two \<noteq> []" and ne3: "filters ?three \<noteq> []"
    by (simp_all add: exampleAccount_def)
  have prev: "?previous = (case subscriptionTreeItems (exampleTree (Some a) (Some ?previous) 2) of
                             Some items \<Rightarrow> items | None \<Rightarrow> [])" for a
    by (simp add: exampleTree_def)
  have settled2: "\<forall>i < length (filters ?two).
         find (\<lambda>ti. Some (ti_id ti) = sub_id (subscription (filters ?two ! i))) ?previous = None
         \<longrightarrow> (\<exists>c created.
                resolvedContext (filters ?two ! i) = Inr c \<and>
                fst (countingFactory c (snd (map_async (reconcileFilter countingFactory ?previous)
                        (take i (filters ?two))
                        (world (exampleTree (Some ?two) (Some ?previous) 2)))))
                  = Fulfilled created)"
    by (auto simp: scenario_defs reconcileFilter_def resolvedContext_def nonNullProp_def
        less_Suc_eq)
  have settled3: "\<forall>i < length (filters ?three).
         find (\<lambda>ti. Some (ti_id ti) = sub_id (subscription (filters ?three ! i))) ?previous = None
         \<longrightarrow> (\<exists>c created.
                resolvedContext (filters ?three ! i) = Inr c \<and>
                fst (countingFactory c (snd (map_async (reconcileFilter countingFactory ?previous)
                        (take i (filters ?three))
                        (world (exampleTree (Some ?three) (Some ?previous) 2)))))
                  = Fulfilled created)"
    by (auto simp: scenario_defs reconcileFilter_def resolvedContext_def nonNullProp_def
        less_Suc_eq)
  from reconcile_reuses_or_creates [OF task st wf ne2 prev refl, of countingFactory True emptyContext]
    settled2
  obtain items2 where
    run2: "loadMoreChildrenImpl countingFactory True emptyContext
             (exampleTree (Some ?two) (Some ?previous) 2)
           = (Fulfilled (map SubscriptionItem items2),
              emptyContext\<lparr>accountStatus := Some ''LoggedIn''\<rparr>,
              (exampleTree (Some ?two) (Some ?previous) 2)
                \<lparr>subscriptionTreeItems := Some items2,
                  world := snd (map_async (reconcileFilter countingFactory ?previous)
                                  (filters ?two)
                                  (world (exampleTree (Some ?two) (Some ?previous) 2)))\<rparr>)"
    and len2: "length items2 = length (filters ?two)"
    by blast
  from reconcile_reuses_or_creates [OF task st wf ne3 prev refl, of countingFactory True emptyContext]
    settled3
  obtain items3 where
    run3: "loadMoreChildrenImpl countingFactory True emptyContext
             (exampleTree (Some ?three) (Some ?previous) 2)
           = (Fulfilled (map SubscriptionItem items3),
              emptyContext\<lparr>accountStatus := Some ''LoggedIn''\<rparr>,
              (exampleTree (Some ?three) (Some ?previous) 2)
                \<lparr>subscriptionTreeItems := Some items3,
                  world := snd (map_async (reconcileFilter countingFactory ?previous)
                                  (filters ?three)
                                  (world (exampleTree (Some ?three) (Some ?previous) 2)))\<rparr>)"
    by blast
  have eval2: "loadMoreChildrenImpl countingFactory True emptyContext
        (exampleTree (Some ?two) (Some ?previous) 2)
     = (Fulfilled [SubscriptionItem (exampleNode 1 ''2''), SubscriptionItem (exampleNode 2 ''3'')],
        emptyContext\<lparr>accountStatus := Some ''LoggedIn''\<rparr>,
        exampleTree (Some ?two) (Some [exampleNode 1 ''2'', exampleNode 2 ''3'']) 3)"
    by (simp add: reconcile_defs scenario_defs)
  have eval3: "loadMoreChildrenImpl countingFactory True emptyContext
        (exampleTree (Some ?three) (Some ?previous) 2)
     = (Fulfilled [SubscriptionItem (exampleNode 1 ''2''), SubscriptionItem (exampleNode 2 ''3''),
                   SubscriptionItem (exampleNode 3 ''4'')],
        emptyContext\<lparr>accountStatus := Some ''LoggedIn''\<rparr>,
        exampleTree (Some ?three)
          (Some [exampleNode 1 ''2'', exampleNode 2 ''3'', exampleNode 3 ''4'']) 4)"
    by (simp add: reconcile_defs scenario_defs)
  from run2 eval2 have "map SubscriptionItem items2
      = [SubscriptionItem (exampleNode 1 ''2''), SubscriptionItem (exampleNode 2 ''3'')]"
    by simp
  then have "items2 = [exampleNode 1 ''2'', exampleNode 2 ''3'']"
    by (auto simp: map_eq_Cons_conv)
  with len2 have len: "length [exampleNode 1 ''2'', exampleNode 2 ''3''] = length (filters ?two)"
    by simp
  have f0: "find (\<lambda>ti. Some (ti_id ti) = sub_id (subscription (filters ?two ! 0))) ?previous
      = Some (exampleNode 1 ''2'')"
    by (simp add: exampleAccount_def exampleFilter_def exampleNode_def)
  have f1: "find (\<lambda>ti. Some (ti_id ti) = sub_id (subscription (filters ?two ! 1))) ?previous
      = None"
    by (simp add: exampleAccount_def exampleFilter_def exampleNode_def)
  from eval2 eval3 len f0 f1 run3 show ?thesis by simp
qed

text \<open>
  Claim C2. When the factory is called for a filter during a reconciliation pass (no node of
  the previous list has the filter's id, and the resolved context is complete) and its
  promise is rejected, \<^verbatim>\<open>loadMoreChildrenImpl\<close> is rejected: with the reason of a promise
  of that pass, and with no list returned. The list it leaves cached is empty, not a part of
  the new one.
\<close>

theorem factory_failure_fails_pass:
  assumes task: "azureAccountTask this = Fulfilled (Some account)"
    and st: "status account = LoggedIn"
    and wf: "waitForFilters account = Fulfilled ready"
    and prev: "previous = (case subscriptionTreeItems this of Some items \<Rightarrow> items | None \<Rightarrow> [])"
    and i: "i < length (filters account)"
    and unmatched:
      "find (\<lambda>ti. Some (ti_id ti) = sub_id (subscription (filters account ! i))) previous = None"
    and ctx: "resolvedContext (filters account ! i) = Inr c"
    and fail: "fst (createSubscriptionTreeItem c
                     (snd (map_async (reconcileFilter createSubscriptionTreeItem previous)
                             (take i (filters account)) (world this))))
               = Rejected e"
  shows "\<exists>e'. fst (loadMoreChildrenImpl createSubscriptionTreeItem clearCache context this)
                 = Rejected e' \<and>
              Rejected e' \<in> set (fst (map_async (reconcileFilter createSubscriptionTreeItem previous)
                                        (filters account) (world this))) \<and>
              subscriptionTreeItems
                (snd (snd (loadMoreChildrenImpl createSubscriptionTreeItem clearCache context this)))
                 = Some []"
proof -
  define r where
    "r = map_async (reconcileFilter createSubscriptionTreeItem previous) (filters account) (world this)"
  define context1 where
    "context1 = context\<lparr>accountStatus := Some (status_string (status account))\<rparr>"
  from i have ne: "filters account \<noteq> []" by auto
  note eq = loadMoreChildrenImpl_reconcile [OF task st wf ne prev r_def context1_def,
      of clearCache]
  have "fst r ! i = Rejected e"
    using reconcile_promise_nth [OF i, of createSubscriptionTreeItem previous "world this"]
      unmatched ctx fail
    by (simp add: r_def reconcileFilter_def)
  moreover have "i < length (fst r)"
    using i by (simp add: r_def map_async_length)
  ultimately have "Rejected e \<in> set (fst r)"
    by (metis nth_mem)
  then obtain e' where rej: "Promise_all (fst r) = Rejected e'"
    using Promise_all_rejects by blast
  then have mem: "Rejected e' \<in> set (fst r)"
    by (rule Promise_all_Rejected_mem)
  from eq rej mem show ?thesis
    by (simp add: r_def)
qed


theorem factory_failure_fails_pass_witness:
  "resolvedContext (filters (exampleAccount LoggedIn [''2'', ''3'']) ! 1) = Inr (exampleRoot ''3'')
   \<and> fst (flakyFactory (exampleRoot ''3'') 2) = Rejected (ExternalError ''unavailable'')
   \<and> fst (loadMoreChildrenImpl flakyFactory True emptyContext
           (exampleTree (Some (exampleAccount LoggedIn [''2'', ''3'']))
              (Some [exampleNode 0 ''1'', exampleNode 1 ''2'']) 2))
       = Rejected (ExternalError ''unavailable'')
   \<and> subscriptionTreeItems (snd (snd (loadMoreChildrenImpl flakyFactory True emptyContext
           (exampleTree (Some (exampleAccount LoggedIn [''2'', ''3'']))
              (Some [exampleNode 0 ''1'', exampleNode 1 ''2'']) 2))))
       = Some []"
proof -
  let ?account = "exampleAccount LoggedIn [''2'', ''3'']"
  let ?previous = "[exampleNode 0 ''1'', exampleNode 1 ''2'']"
  let ?tree = "exampleTree (Some ?account) (Some ?previous) 2"
  have task: "azureAccountTask ?tree = Fulfilled (Some ?account)"
    by (simp add: exampleTree_def)
  have st: "status ?account = LoggedIn"
    by (simp add: exampleAccount_def)
  have wf: "waitForFilters ?account = Fulfilled True"
    by (simp add: exampleAccount_def)
  have prev: "?previous = (case subscriptionTreeItems ?tree of Some items \<Rightarrow> items | None \<Rightarrow> [])"
    by (simp add: exampleTree_def)
  have i: "1 < length (filters ?account)"
    by (simp add: exampleAccount_def)
  have unmatched:
    "find (\<lambda>ti. Some (ti_id ti) = sub_id (subscription (filters ?account ! 1))) ?previous = None"
    by (simp add: scenario_defs)
  have ctx: "resolvedContext (filters ?account ! 1) = Inr (exampleRoot ''3'')"
    by (simp add: scenario_defs resolvedContext_def nonNullProp_def)
  have w: "snd (map_async (reconcileFilter flakyFactory ?previous) (take 1 (filters ?account))
                  (world ?tree)) = 2"
    by (simp add: scenario_defs reconcileFilter_def)
  have fail0: "fst (flakyFactory (exampleRoot ''3'') 2) = Rejected (ExternalError ''unavailable'')"
    by (simp add: scenario_defs)
  with w have fail: "fst (flakyFactory (exampleRoot ''3'')
                     (snd (map_async (reconcileFilter flakyFactory ?previous)
                             (take 1 (filters ?account)) (world ?tree))))
               = Rejected (ExternalError ''unavailable'')"
    by simp
  have only: "fst (map_async (reconcileFilter flakyFactory ?previous) (filters ?account)
                     (world ?tree))
              = [Fulfilled (exampleNode 1 ''2''), Rejected (ExternalError ''unavailable'')]"
    by (simp add: scenario_defs reconcileFilter_def resolvedContext_def nonNullProp_def)
  from factory_failure_fails_pass [of _ _ _ _ _ _ flakyFactory _ True emptyContext,
      OF task st wf prev i unmatched ctx fail] only
  have "fst (loadMoreChildrenImpl flakyFactory True emptyContext ?tree)
          = Rejected (ExternalError ''unavailable'')
        \<and> subscriptionTreeItems (snd (snd (loadMoreChildrenImpl flakyFactory True emptyContext ?tree)))
          = Some []"
    by auto
  with ctx fail0 show ?thesis by simp
qed

subsection \<open>A failed pass\<close>



subsection \<open>Placeholders\<close>

text \<open>
  Claim C8. When the status is \<^verbatim>\<open>LoggedIn\<close>, the promise of \<^verbatim>\<open>waitForFilters\<close> has
  been fulfilled and the list of filters is empty, \<^verbatim>\<open>loadMoreChildrenImpl\<close> returns
  exactly one item: the placeholder labelled "Select Subscriptions...", whose command is
  \<^verbatim>\<open>azure-account.selectSubscriptions\<close>.
\<close>

theorem logged_in_without_filters:
  assumes "azureAccountTask this = Fulfilled (Some account)"
    and "status account = LoggedIn"
    and "waitForFilters account = Fulfilled ready"
    and "filters account = []"
  shows "loadMoreChildrenImpl createSubscriptionTreeItem clearCache context this =
           (Fulfilled [GenericItem (commandItem selectSubscriptionsLabel
                                      selectSubscriptionsCommandId)],
            context\<lparr>accountStatus := Some ''LoggedIn''\<rparr>,
            this\<lparr>subscriptionTreeItems := Some []\<rparr>)
         \<and> label (commandItem selectSubscriptionsLabel selectSubscriptionsCommandId)
             = ''Select Subscriptions...''
         \<and> commandId (commandItem selectSubscriptionsLabel selectSubscriptionsCommandId)
             = Some ''azure-account.selectSubscriptions''"
  using assms
  by (simp add: loadMoreChildrenImpl_def Let_def commandItem_def selectSubscriptionsLabel_def
      selectSubscriptionsCommandId_def)

theorem logged_in_without_filters_witness:
  "loadMoreChildrenImpl countingFactory True emptyContext
     (exampleTree (Some (exampleAccount LoggedIn [])) (Some [exampleNode 0 ''1'']) 1)
   = (Fulfilled [GenericItem (commandItem selectSubscriptionsLabel selectSubscriptionsCommandId)],
      emptyContext\<lparr>accountStatus := Some ''LoggedIn''\<rparr>,
      exampleTree (Some (exampleAccount LoggedIn [])) (Some []) 1)
   \<and> commandId (commandItem selectSubscriptionsLabel selectSubscriptionsCommandId)
       = Some ''azure-account.selectSubscriptions''"
proof -
  let ?account = "exampleAccount LoggedIn []"
  let ?tree = "exampleTree (Some ?account) (Some [exampleNode 0 ''1'']) 1"
  have task: "azureAccountTask ?tree = Fulfilled (Some ?account)"
    by (simp add: exampleTree_def)
  have st: "status ?account = LoggedIn"
    by (simp add: exampleAccount_def)
  have wf: "waitForFilters ?account = Fulfilled True"
    by (simp add: exampleAccount_def)
  have no: "filters ?account = []"
    by (simp add: exampleAccount_def)
  from logged_in_without_filters [OF task st wf no, of countingFactory True emptyContext]
  show ?thesis
    by (simp add: exampleTree_def)
qed


text \<open>
  Claim C5, as stated, fails: for an account that is \<^verbatim>\<open>Initializing\<close> the single
  placeholder returned is labelled "Loading..." and carries a command, the sign-in command
  \<^verbatim>\<open>azure-account.login\<close>. The branch of the source for \<^verbatim>\<open>Initializing\<close> and
  \<^verbatim>\<open>LoggingIn\<close> builds one item; only the label depends on the status.
\<close>

theorem loading_placeholder_carries_command:
  "fst (loadMoreChildrenImpl countingFactory True emptyContext
          (exampleTree (Some (exampleAccount Initializing [])) None 0))
     = Fulfilled [GenericItem (loadingItem Initializing)]
   \<and> label (loadingItem Initializing) = ''Loading...''
   \<and> commandId (loadingItem Initializing) = Some ''azure-account.login''
   \<and> commandId (loadingItem Initializing) \<noteq> None"
  by (simp add: loadMoreChildrenImpl_def Let_def scenario_defs loadingItem_def
      signInCommandId_def)

text \<open>
  Claim C5, amended. When the status is \<^verbatim>\<open>Initializing\<close>, \<^verbatim>\<open>loadMoreChildrenImpl\<close>
  returns exactly one item, the placeholder labelled "Loading...". Its command and its id
  are both \<^verbatim>\<open>azure-account.login\<close>; it has no command arguments and is not marked
  for the tree item picker.
\<close>

theorem initializing_placeholder:
  assumes "azureAccountTask this = Fulfilled (Some account)"
    and "status account = Initializing"
  shows "loadMoreChildrenImpl createSubscriptionTreeItem clearCache context this =
           (Fulfilled [GenericItem (loadingItem Initializing)],
            context\<lparr>accountStatus := Some ''Initializing''\<rparr>,
            this\<lparr>subscriptionTreeItems := Some []\<rparr>)
         \<and> label (loadingItem Initializing) = ''Loading...''
         \<and> commandId (loadingItem Initializing) = Some signInCommandId
         \<and> item_id (loadingItem Initializing) = Some signInCommandId
         \<and> signInCommandId = ''azure-account.login''
         \<and> includeInTreeItemPicker (loadingItem Initializing) = None
         \<and> commandArgs (loadingItem Initializing) = None"
  using assms
  by (simp add: loadMoreChildrenImpl_def Let_def loadingItem_def signInCommandId_def)

theorem initializing_placeholder_witness:
  "loadMoreChildrenImpl countingFactory True emptyContext
     (exampleTree (Some (exampleAccount Initializing [''1''])) None 0)
   = (Fulfilled [GenericItem (loadingItem Initializing)],
      emptyContext\<lparr>accountStatus := Some ''Initializing''\<rparr>,
      exampleTree (Some (exampleAccount Initializing [''1''])) (Some []) 0)
   \<and> commandId (loadingItem Initializing) = Some ''azure-account.login''"
proof -
  let ?account = "exampleAccount Initializing [''1'']"
  let ?tree = "exampleTree (Some ?account) None 0"
  have task: "azureAccountTask ?tree = Fulfilled (Some ?account)"
    by (simp add: exampleTree_def)
  have st: "status ?account = Initializing"
    by (simp add: exampleAccount_def)
  from initializing_placeholder [OF task st, of countingFactory True emptyContext]
  show ?thesis
    by (simp add: exampleTree_def)
qed

text \<open>
  Claim C6. When there is no test account and the host finds no account extension, the tree
  item is constructed without the flag \<^verbatim>\<open>isAzureAccountInstalled\<close> being set, and
  \<^verbatim>\<open>loadMoreChildrenImpl\<close> returns exactly one item, the actionable placeholder "Install
  Azure Account Extension..." (command \<^verbatim>\<open>extension.open\<close> on the extension's id), and
  leaves the tree item as it was: the flag is still not set.
\<close>

theorem provider_not_installed:
  assumes "getExtension h = None"
  shows "azureAccountTask (new_AzureAccountTreeItemBase h None w) = Fulfilled None
         \<and> \<not> isAzureAccountInstalled (new_AzureAccountTreeItemBase h None w)
         \<and> loadMoreChildrenImpl createSubscriptionTreeItem clearCache context
              (new_AzureAccountTreeItemBase h None w)
             = (Fulfilled [GenericItem installAzureAccountItem],
                context\<lparr>accountStatus := Some ''notInstalled''\<rparr>,
                new_AzureAccountTreeItemBase h None w)
         \<and> label installAzureAccountItem = ''Install Azure Account Extension...''
         \<and> commandId installAzureAccountItem = Some ''extension.open''
         \<and> commandArgs installAzureAccountItem = Some [''ms-vscode.azure-account'']"
proof -
  let ?tree = "new_AzureAccountTreeItemBase h None w"
  from assms have new:
    "?tree = \<lparr>disposables = [], azureAccountTask = Fulfilled None, subscriptionTreeItems = None,
              executed = [], refreshes = 0, world = w\<rparr>"
    by (simp add: new_AzureAccountTreeItemBase_def loadAzureAccount_absent)
  have task: "azureAccountTask ?tree = Fulfilled None"
    by (simp add: new)
  have flag: "\<not> isAzureAccountInstalled ?tree"
    by (simp add: new isAzureAccountInstalled_def)
  have run: "loadMoreChildrenImpl createSubscriptionTreeItem clearCache context ?tree
             = (Fulfilled [GenericItem installAzureAccountItem],
                context\<lparr>accountStatus := Some ''notInstalled''\<rparr>, ?tree)"
    using task by (simp add: loadMoreChildrenImpl_def)
  have item: "label installAzureAccountItem = ''Install Azure Account Extension...''
         \<and> commandId installAzureAccountItem = Some ''extension.open''
         \<and> commandArgs installAzureAccountItem = Some [''ms-vscode.azure-account'']"
    by (simp add: installAzureAccountItem_def extensionOpenCommand_def azureAccountExtensionId_def)
  from task flag run item show ?thesis by simp
qed

theorem provider_not_installed_witness:
  "getExtension (exampleHost None) = None
   \<and> \<not> isAzureAccountInstalled (new_AzureAccountTreeItemBase (exampleHost None) None (0::nat))
   \<and> loadMoreChildrenImpl countingFactory True emptyContext
        (new_AzureAccountTreeItemBase (exampleHost None) None 0)
      = (Fulfilled [GenericItem installAzureAccountItem],
         emptyContext\<lparr>accountStatus := Some ''notInstalled''\<rparr>,
         exampleTree None None 0)"
proof -
  have h: "getExtension (exampleHost None) = None"
    by (simp add: exampleHost_def)
  have new: "new_AzureAccountTreeItemBase (exampleHost None) None (0::nat) = exampleTree None None 0"
    by (simp add: new_AzureAccountTreeItemBase_def loadAzureAccount_def exampleHost_def
        exampleTree_def)
  from provider_not_installed [OF h, of 0 countingFactory True emptyContext] h new
  show ?thesis by simp
qed


subsection \<open>Refresh on the account's events\<close>

text \<open>
  Claim C4. Once \<^verbatim>\<open>loadAzureAccount\<close> has acquired an account and registered its two
  listeners, a status-changed event whose new status is \<^verbatim>\<open>LoggedIn\<close> asks for no
  refresh, a status-changed event with any other new status asks for exactly one, and a
  filters-changed event asks for exactly one, whatever the status of the account.
\<close>

theorem refresh_on_events:
  assumes none: "disposables this = []"
    and acquired: "fst (loadAzureAccount h testAccount this) = Fulfilled (Some account)"
    and after: "this' = snd (loadAzureAccount h testAccount this)"
  shows "refreshes (fire (StatusChanged st) this')
           = (if st = LoggedIn then refreshes this' else Suc (refreshes this'))
         \<and> refreshes (fire FiltersChanged this') = Suc (refreshes this')
         \<and> onStatusChanged_listener st this' = (if st = LoggedIn then this' else refresh this')
         \<and> onFiltersChanged_listener this' = refresh this'"
proof -
  from loadAzureAccount_registers [OF acquired] none after
  have reg: "disposables this' = [FiltersChangedListener, StatusChangedListener]"
    by simp
  show ?thesis
    by (simp add: fire_registered [OF reg] onStatusChanged_listener_def
        onFiltersChanged_listener_def refresh_def)
qed

theorem refresh_on_events_witness:
  "fst (loadAzureAccount (exampleHost None) (Some (exampleAccount LoggedOut []))
          (exampleTree None None (0::nat)))
     = Fulfilled (Some (exampleAccount LoggedOut []))
   \<and> refreshes (fire (StatusChanged LoggedIn)
        (snd (loadAzureAccount (exampleHost None) (Some (exampleAccount LoggedOut []))
                (exampleTree None None (0::nat))))) = 0
   \<and> refreshes (fire (StatusChanged LoggingIn)
        (snd (loadAzureAccount (exampleHost None) (Some (exampleAccount LoggedOut []))
                (exampleTree None None (0::nat))))) = 1
   \<and> refreshes (fire FiltersChanged
        (snd (loadAzureAccount (exampleHost None) (Some (exampleAccount LoggedOut []))
                (exampleTree None None (0::nat))))) = 1"
proof -
  let ?tree = "exampleTree None None (0::nat)"
  let ?load = "loadAzureAccount (exampleHost None) (Some (exampleAccount LoggedOut [])) ?tree"
  have none: "disposables ?tree = []"
    by (simp add: exampleTree_def)
  have acquired: "fst ?load = Fulfilled (Some (exampleAccount LoggedOut []))"
    by (simp add: loadAzureAccount_def executeCommand_def exampleHost_def Let_def)
  have zero: "refreshes (snd ?load) = 0"
    by (simp add: loadAzureAccount_def executeCommand_def exampleHost_def exampleTree_def Let_def)
  from refresh_on_events [OF none acquired refl, of LoggedIn]
    refresh_on_events [OF none acquired refl, of LoggingIn] acquired zero
  show ?thesis by simp
qed


subsection \<open>The subscription prompt step\<close>

text \<open>
  Claim C7, as stated, fails in its last part: the cancellation is not raised only when the
  user declines. Here the provider is absent, the user picks "View in Marketplace", the
  host opens the extension's page, and \<^verbatim>\<open>ensureSubscriptionTreeItems\<close> still raises
  \<^verbatim>\<open>UserCancelledError\<close>.
\<close>

theorem cancelled_though_install_accepted:
  "azureAccountTask (exampleTree None None (0::nat)) = Fulfilled None
   \<and> showWarningMessage (exampleHost (Some viewInMarketplace)) = Fulfilled (Some viewInMarketplace)
   \<and> ensureSubscriptionTreeItems (exampleHost (Some viewInMarketplace)) countingFactory
        emptyContext (exampleTree None None 0)
      = (Rejected UserCancelledError,
         emptyContext\<lparr>cancelStep := Some ''requiresAzureAccount''\<rparr>,
         (exampleTree None None 0)
           \<lparr>executed := [(''extension.open'', [S ''ms-vscode.azure-account''])]\<rparr>)"
  by (simp add: ensureSubscriptionTreeItems_def executeCommand_def exampleHost_def
      exampleTree_def Let_def extensionOpenCommand_def azureAccountExtensionId_def)

text \<open>
  Claim C7, amended. When the provider is absent, \<^verbatim>\<open>ensureSubscriptionTreeItems\<close>
  records the cancel step, offers the install action and then raises
  \<^verbatim>\<open>UserCancelledError\<close>, whether the user picks "View in Marketplace" (the extension's
  page is opened first) or not; this supposes that the warning returns and that the command,
  when it is run, returns. When the provider is present, an error
  \<^verbatim>\<open>ensureSubscriptionTreeItems\<close> raises is the one \<^verbatim>\<open>loadMoreChildrenImpl\<close> raised
  while the children were loaded, and when the account task failed it is the task's error:
  the function raises a cancellation of its own in the provider-absent case only.
\<close>

theorem user_cancelled_when_provider_absent:
  "(azureAccountTask this = Fulfilled None \<and> showWarningMessage h = Fulfilled picked \<and>
    (picked = Some viewInMarketplace \<longrightarrow>
       command_result h extensionOpenCommand [S azureAccountExtensionId] = Fulfilled ())
    \<longrightarrow> ensureSubscriptionTreeItems h createSubscriptionTreeItem context this
          = (Rejected UserCancelledError,
             context\<lparr>cancelStep := Some ''requiresAzureAccount''\<rparr>,
             (if picked = Some viewInMarketplace
              then this\<lparr>executed := executed this
                           @ [(extensionOpenCommand, [S azureAccountExtensionId])]\<rparr>
              else this)))
   \<and> (azureAccountTask this = Fulfilled (Some account) \<and>
      fst (ensureSubscriptionTreeItems h createSubscriptionTreeItem context this) = Rejected e
      \<longrightarrow> subscriptionTreeItems this = None \<and>
          fst (loadMoreChildrenImpl createSubscriptionTreeItem True context this) = Rejected e)
   \<and> (azureAccountTask this = Rejected e
      \<longrightarrow> fst (ensureSubscriptionTreeItems h createSubscriptionTreeItem context this)
            = Rejected e)"
proof -
  have failed: "fst (ensureSubscriptionTreeItems h createSubscriptionTreeItem context this)
            = Rejected e" if "azureAccountTask this = Rejected e"
    using that by (simp add: ensureSubscriptionTreeItems_def)
  have absent: "ensureSubscriptionTreeItems h createSubscriptionTreeItem context this
          = (Rejected UserCancelledError,
             context\<lparr>cancelStep := Some ''requiresAzureAccount''\<rparr>,
             (if picked = Some viewInMarketplace
              then this\<lparr>executed := executed this
                           @ [(extensionOpenCommand, [S azureAccountExtensionId])]\<rparr>
              else this))"
    if "azureAccountTask this = Fulfilled None" "showWarningMessage h = Fulfilled picked"
      "picked = Some viewInMarketplace \<longrightarrow>
         command_result h extensionOpenCommand [S azureAccountExtensionId] = Fulfilled ()"
    using that by (simp add: ensureSubscriptionTreeItems_def executeCommand_def Let_def)
  have present: "subscriptionTreeItems this = None \<and>
          fst (loadMoreChildrenImpl createSubscriptionTreeItem True context this) = Rejected e"
    if task: "azureAccountTask this = Fulfilled (Some account)"
      and rej: "fst (ensureSubscriptionTreeItems h createSubscriptionTreeItem context this)
                  = Rejected e"
  proof (cases "subscriptionTreeItems this")
    case (Some items)
    with task rej show ?thesis
      by (simp add: ensureSubscriptionTreeItems_def nonNullValue_def)
  next
    case None
    obtain r context1 this1 where
      run: "loadMoreChildrenImpl createSubscriptionTreeItem True context this
              = (r, context1, this1)"
      by (cases "loadMoreChildrenImpl createSubscriptionTreeItem True context this") auto
    from loadMoreChildrenImpl_caches [OF task, of createSubscriptionTreeItem True "context"] run
    obtain items where cached: "subscriptionTreeItems this1 = Some items"
      by auto
    from task rej None run cached have "r = Rejected e"
      by (cases r)
        (simp_all add: ensureSubscriptionTreeItems_def getCachedChildren_def nonNullValue_def)
    with None run show ?thesis by simp
  qed
  from absent present failed show ?thesis by blast
qed


theorem user_cancelled_when_provider_absent_witness:
  "ensureSubscriptionTreeItems (exampleHost None) countingFactory emptyContext
     (exampleTree None None 0)
   = (Rejected UserCancelledError, emptyContext\<lparr>cancelStep := Some ''requiresAzureAccount''\<rparr>,
      exampleTree None None 0)
   \<and> ensureSubscriptionTreeItems (exampleHost (Some viewInMarketplace)) countingFactory
       emptyContext (exampleTree None None 0)
     = (Rejected UserCancelledError, emptyContext\<lparr>cancelStep := Some ''requiresAzureAccount''\<rparr>,
        (exampleTree None None 0)
          \<lparr>executed := [(extensionOpenCommand, [S azureAccountExtensionId])]\<rparr>)
   \<and> fst (ensureSubscriptionTreeItems (exampleHost None) flakyFactory emptyContext
            (exampleTree (Some (exampleAccount LoggedIn [''3''])) None 0))
       = Rejected (ExternalError ''unavailable'')
   \<and> fst (loadMoreChildrenImpl flakyFactory True emptyContext
            (exampleTree (Some (exampleAccount LoggedIn [''3''])) None 0))
       = Rejected (ExternalError ''unavailable'')"
proof -
  let ?absent = "exampleTree None None (0::nat)"
  let ?account = "exampleAccount LoggedIn [''3'']"
  let ?present = "exampleTree (Some ?account) None (0::nat)"
  have task: "azureAccountTask ?absent = Fulfilled None"
    by (simp add: exampleTree_def)
  have declined: "showWarningMessage (exampleHost None) = Fulfilled None"
    by (simp add: exampleHost_def)
  have accepted: "showWarningMessage (exampleHost (Some viewInMarketplace))
                    = Fulfilled (Some viewInMarketplace)"
    by (simp add: exampleHost_def)
  have cmd: "command_result (exampleHost p) extensionOpenCommand [S azureAccountExtensionId]
               = Fulfilled ()" for p
    by (simp add: exampleHost_def)
  have ex: "executed ?absent = []"
    by (simp add: exampleTree_def)
  have task': "azureAccountTask ?present = Fulfilled (Some ?account)"
    by (simp add: exampleTree_def)
  have rej: "fst (ensureSubscriptionTreeItems (exampleHost None) flakyFactory emptyContext ?present)
               = Rejected (ExternalError ''unavailable'')"
    by (simp add: ensureSubscriptionTreeItems_def getCachedChildren_def reconcile_defs
        scenario_defs)
  from user_cancelled_when_provider_absent
         [of ?absent "exampleHost None" None countingFactory emptyContext]
       user_cancelled_when_provider_absent
         [of ?absent "exampleHost (Some viewInMarketplace)" "Some viewInMarketplace"
            countingFactory emptyContext]
       user_cancelled_when_provider_absent
         [of ?present "exampleHost None" _ flakyFactory emptyContext ?account
            "ExternalError ''unavailable''"]
       task declined accepted cmd ex task' rej
  show ?thesis
    by simp
qed


text \<open>
  Claim C3. When the materialized list has exactly one subscription,
  \<^verbatim>\<open>getSubscriptionPromptStep\<close> returns no step and the caller's context holds the fields
  of that subscription's root (credentials, display name, id, path, tenant, user,
  environment), its telemetry properties unchanged. When the list has two or more, it
  returns the prompt step and leaves the context as it was. The step's \<^verbatim>\<open>shouldPrompt\<close>
  is false exactly when \<^verbatim>\<open>subscriptionId\<close> is set in the context, where set is what
  \<^verbatim>\<open>!context.subscriptionId\<close> tests: present and not the empty string.
\<close>

theorem subscription_prompt_step:
  assumes ensured: "ensureSubscriptionTreeItems h createSubscriptionTreeItem context this
                      = (Fulfilled subscriptions, context1, this1)"
    and first: "r = root (subscriptions ! 0)"
    and copied: "context2 = Object_assign context1 r"
  shows "(length subscriptions = 1 \<longrightarrow>
            getSubscriptionPromptStep h createSubscriptionTreeItem context this
              = (Fulfilled None, context2, this1))
         \<and> ctx_credentials context2 = Some (credentials r)
         \<and> ctx_subscriptionDisplayName context2 = Some (subscriptionDisplayName r)
         \<and> ctx_subscriptionId context2 = Some (subscriptionId r)
         \<and> ctx_subscriptionPath context2 = Some (subscriptionPath r)
         \<and> ctx_tenantId context2 = Some (tenantId r)
         \<and> ctx_userId context2 = Some (userId r)
         \<and> ctx_environment context2 = Some (environment r)
         \<and> accountStatus context2 = accountStatus context1
         \<and> cancelStep context2 = cancelStep context1
         \<and> (2 \<le> length subscriptions \<longrightarrow>
              getSubscriptionPromptStep h createSubscriptionTreeItem context this
                = (Fulfilled (Some SubscriptionPromptStep), context1, this1))
         \<and> ((\<not> shouldPrompt SubscriptionPromptStep c)
              = (\<exists>s. ctx_subscriptionId c = Some s \<and> s \<noteq> []))"
proof -
  have one: "getSubscriptionPromptStep h createSubscriptionTreeItem context this
               = (Fulfilled None, context2, this1)"
    if "length subscriptions = 1"
    using ensured first copied that
    by (simp add: getSubscriptionPromptStep_def)
  have fields: "ctx_credentials context2 = Some (credentials r)
         \<and> ctx_subscriptionDisplayName context2 = Some (subscriptionDisplayName r)
         \<and> ctx_subscriptionId context2 = Some (subscriptionId r)
         \<and> ctx_subscriptionPath context2 = Some (subscriptionPath r)
         \<and> ctx_tenantId context2 = Some (tenantId r)
         \<and> ctx_userId context2 = Some (userId r)
         \<and> ctx_environment context2 = Some (environment r)
         \<and> accountStatus context2 = accountStatus context1
         \<and> cancelStep context2 = cancelStep context1"
    using copied by (simp add: Object_assign_def)
  have more: "getSubscriptionPromptStep h createSubscriptionTreeItem context this
                = (Fulfilled (Some SubscriptionPromptStep), context1, this1)"
    if "2 \<le> length subscriptions"
    using ensured that by (simp add: getSubscriptionPromptStep_def)
  have should: "(\<not> shouldPrompt SubscriptionPromptStep c)
              = (\<exists>s. ctx_subscriptionId c = Some s \<and> s \<noteq> [])"
    by (simp add: truthy_def split: option.splits)
  from one more should fields show ?thesis by blast
qed

theorem subscription_prompt_step_witness:
  "getSubscriptionPromptStep (exampleHost None) countingFactory emptyContext
     (exampleTree (Some (exampleAccount LoggedIn [''1''])) (Some [exampleNode 0 ''1'']) 1)
   = (Fulfilled None, Object_assign emptyContext (exampleRoot ''1''),
      exampleTree (Some (exampleAccount LoggedIn [''1''])) (Some [exampleNode 0 ''1'']) 1)
   \<and> ctx_subscriptionId (Object_assign emptyContext (exampleRoot ''1'')) = Some ''1''
   \<and> getSubscriptionPromptStep (exampleHost None) countingFactory emptyContext
       (exampleTree (Some (exampleAccount LoggedIn [''1'', ''2'']))
          (Some [exampleNode 0 ''1'', exampleNode 1 ''2'']) 2)
     = (Fulfilled (Some SubscriptionPromptStep), emptyContext,
        exampleTree (Some (exampleAccount LoggedIn [''1'', ''2'']))
          (Some [exampleNode 0 ''1'', exampleNode 1 ''2'']) 2)
   \<and> shouldPrompt SubscriptionPromptStep emptyContext
   \<and> \<not> shouldPrompt SubscriptionPromptStep (Object_assign emptyContext (exampleRoot ''1''))"
proof -
  let ?one = "exampleTree (Some (exampleAccount LoggedIn [''1''])) (Some [exampleNode 0 ''1'']) 1"
  let ?two = "exampleTree (Some (exampleAccount LoggedIn [''1'', ''2'']))
                (Some [exampleNode 0 ''1'', exampleNode 1 ''2'']) 2"
  have e1: "ensureSubscriptionTreeItems (exampleHost None) countingFactory emptyContext ?one
              = (Fulfilled [exampleNode 0 ''1''], emptyContext, ?one)"
    by (simp add: ensureSubscriptionTreeItems_def nonNullValue_def exampleTree_def)
  have e2: "ensureSubscriptionTreeItems (exampleHost None) countingFactory emptyContext ?two
              = (Fulfilled [exampleNode 0 ''1'', exampleNode 1 ''2''], emptyContext, ?two)"
    by (simp add: ensureSubscriptionTreeItems_def nonNullValue_def exampleTree_def)
  have r: "exampleRoot ''1'' = root ([exampleNode 0 ''1''] ! 0)"
    by (simp add: exampleNode_def)
  have r2: "exampleRoot ''1'' = root ([exampleNode 0 ''1'', exampleNode 1 ''2''] ! 0)"
    by (simp add: exampleNode_def)
  have none: "ctx_subscriptionId emptyContext = None"
    by (simp add: emptyContext_def)
  have some: "ctx_subscriptionId (Object_assign emptyContext (exampleRoot ''1'')) = Some ''1''"
    by (simp add: Object_assign_def exampleRoot_def)
  from subscription_prompt_step [OF e1 r refl, of emptyContext]
       subscription_prompt_step [OF e2 r2 refl,
         of "Object_assign emptyContext (exampleRoot ''1'')"]
       none some
  show ?thesis by simp
qed

text \<open>
  Claim C10. When the provider is present and the materialized list is empty,
  \<^verbatim>\<open>getSubscriptionPromptStep\<close> is fulfilled with the prompt step, the result of the case
  of two or more subscriptions, and no subscription id is copied into the context.
\<close>

theorem no_subscriptions_prompt_step:
  assumes present: "azureAccountTask this = Fulfilled (Some account)"
    and ensured: "ensureSubscriptionTreeItems h createSubscriptionTreeItem context this
                    = (Fulfilled [], context1, this1)"
  shows "getSubscriptionPromptStep h createSubscriptionTreeItem context this
           = (Fulfilled (Some SubscriptionPromptStep), context1, this1)
         \<and> ctx_subscriptionId context1 = ctx_subscriptionId context"
proof -
  from ensured have step: "getSubscriptionPromptStep h createSubscriptionTreeItem context this
           = (Fulfilled (Some SubscriptionPromptStep), context1, this1)"
    by (simp add: getSubscriptionPromptStep_def)
  have same: "ctx_subscriptionId context1 = ctx_subscriptionId context"
  proof (cases "subscriptionTreeItems this")
    case (Some items)
    with present ensured show ?thesis
      by (simp add: ensureSubscriptionTreeItems_def nonNullValue_def)
  next
    case None
    with present ensured show ?thesis
      by (auto simp: ensureSubscriptionTreeItems_def getCachedChildren_def nonNullValue_def
          loadMoreChildrenImpl_def Let_def
          split: prod.splits outcome.splits option.splits if_splits sum.splits)
  qed
  from step same show ?thesis by simp
qed

theorem no_subscriptions_prompt_step_witness:
  "ensureSubscriptionTreeItems (exampleHost None) countingFactory emptyContext
     (exampleTree (Some (exampleAccount LoggedOut [])) None 0)
   = (Fulfilled [], emptyContext\<lparr>accountStatus := Some ''LoggedOut''\<rparr>,
      exampleTree (Some (exampleAccount LoggedOut [])) (Some []) 0)
   \<and> getSubscriptionPromptStep (exampleHost None) countingFactory emptyContext
       (exampleTree (Some (exampleAccount LoggedOut [])) None 0)
     = (Fulfilled (Some SubscriptionPromptStep),
        emptyContext\<lparr>accountStatus := Some ''LoggedOut''\<rparr>,
        exampleTree (Some (exampleAccount LoggedOut [])) (Some []) 0)"
proof -
  let ?account = "exampleAccount LoggedOut []"
  let ?tree = "exampleTree (Some ?account) None (0::nat)"
  have present: "azureAccountTask ?tree = Fulfilled (Some ?account)"
    by (simp add: exampleTree_def)
  have ensured: "ensureSubscriptionTreeItems (exampleHost None) countingFactory emptyContext ?tree
     = (Fulfilled [], emptyContext\<lparr>accountStatus := Some ''LoggedOut''\<rparr>,
        exampleTree (Some ?account) (Some []) 0)"
    by (simp add: ensureSubscriptionTreeItems_def getCachedChildren_def nonNullValue_def
        loadMoreChildrenImpl_def Let_def exampleTree_def exampleAccount_def)
  from no_subscriptions_prompt_step [OF present ensured] ensured
  show ?thesis by simp
qed

end
